theory Spec2Isabelle
  imports Complex_Main "HOL-Library.Word"
begin

unbundle bit_operations_syntax

section \<open>JavaScript numbers\<close>

text \<open>
  A JavaScript \<open>number\<close> is an IEEE-754 double. The model keeps the three special values
  apart and takes a finite double at its exact real value: rounding, overflow to an
  infinity and the sign of zero are not represented.
\<close>

datatype number = NaN | NInf | Fin real | PInf

fun isNaN :: "number \<Rightarrow> bool" where
  "isNaN NaN = True"
| "isNaN _ = False"

text \<open>The relational operators: every comparison with \<open>NaN\<close> is false.\<close>

fun js_lt :: "number \<Rightarrow> number \<Rightarrow> bool" where
  "js_lt NaN _ = False"
| "js_lt _ NaN = False"
| "js_lt _ NInf = False"
| "js_lt NInf _ = True"
| "js_lt PInf _ = False"
| "js_lt (Fin a) PInf = True"
| "js_lt (Fin a) (Fin b) = (a < b)"

definition js_gt :: "number \<Rightarrow> number \<Rightarrow> bool" where
  "js_gt a b = js_lt b a"

fun js_le :: "number \<Rightarrow> number \<Rightarrow> bool" where
  "js_le NaN _ = False"
| "js_le _ NaN = False"
| "js_le NInf _ = True"
| "js_le _ NInf = False"
| "js_le _ PInf = True"
| "js_le PInf _ = False"
| "js_le (Fin a) (Fin b) = (a \<le> b)"

definition js_ge :: "number \<Rightarrow> number \<Rightarrow> bool" where
  "js_ge a b = js_le b a"

text \<open>\<open>Math.max\<close> and \<open>Math.min\<close> return \<open>NaN\<close> as soon as one argument is \<open>NaN\<close>.\<close>

definition Math_max :: "number \<Rightarrow> number \<Rightarrow> number" where
  "Math_max a b = (if isNaN a \<or> isNaN b then NaN else if js_lt a b then b else a)"

definition Math_min :: "number \<Rightarrow> number \<Rightarrow> number" where
  "Math_min a b = (if isNaN a \<or> isNaN b then NaN else if js_lt b a then b else a)"

text \<open>The operator \<open>-\<close>: the difference of two equal infinities is \<open>NaN\<close>.\<close>

fun js_sub :: "number \<Rightarrow> number \<Rightarrow> number" where
  "js_sub NaN _ = NaN"
| "js_sub _ NaN = NaN"
| "js_sub PInf PInf = NaN"
| "js_sub NInf NInf = NaN"
| "js_sub PInf _ = PInf"
| "js_sub NInf _ = NInf"
| "js_sub (Fin a) PInf = NInf"
| "js_sub (Fin a) NInf = PInf"
| "js_sub (Fin a) (Fin b) = Fin (a - b)"

text \<open>
  The operator \<open>/\<close>. The server only divides by the positive constants \<open>2\<close> and
  \<open>1000\<close>; the other rows follow IEEE-754 with a zero divisor taken as \<open>+0\<close>.
\<close>

fun js_div :: "number \<Rightarrow> number \<Rightarrow> number" where
  "js_div NaN _ = NaN"
| "js_div _ NaN = NaN"
| "js_div (Fin a) (Fin b) =
     (if b = 0 then (if a = 0 then NaN else if 0 < a then PInf else NInf) else Fin (a / b))"
| "js_div (Fin a) _ = Fin 0"
| "js_div PInf (Fin b) = (if 0 \<le> b then PInf else NInf)"
| "js_div NInf (Fin b) = (if 0 \<le> b then NInf else PInf)"
| "js_div _ _ = NaN"

section \<open>The actuation policy\<close>

text \<open>
  \<^verbatim>\<open>
  function populationToFanPower(population: number) {
    if (isNaN(population)) return NaN;
    const maxPopulation = 2;
    const clampedPopulation = Math.min(Math.max(population, 0), maxPopulation);
    return clampedPopulation / maxPopulation;
  }
  \<close>
\<close>

definition populationToFanPower :: "number \<Rightarrow> number" where
  "populationToFanPower population =
     (if isNaN population then NaN
      else let maxPopulation = Fin 2;
               clampedPopulation = Math_min (Math_max population (Fin 0)) maxPopulation
           in js_div clampedPopulation maxPopulation)"

section \<open>Strings\<close>

text \<open>
  A string is a list of code units; a \<open>char\<close> stands for one code unit (those below 256
  are represented). \<open>split_on\<close> is \<open>String.prototype.split\<close> with a one-character
  separator: it always returns at least one part. \<open>trim\<close> removes white space at both
  ends.
\<close>

definition is_digit :: "char \<Rightarrow> bool" where
  "is_digit c = (c \<in> set ''0123456789'')"

definition digit_val :: "char \<Rightarrow> nat" where
  "digit_val c = of_char c - 48"

definition is_space :: "char \<Rightarrow> bool" where
  "is_space c = (c \<in> set [CHR 0x09, CHR 0x0A, CHR 0x0B, CHR 0x0C, CHR 0x0D, CHR 0x20, CHR 0xA0])"

definition is_letter :: "char \<Rightarrow> bool" where
  "is_letter c = (c \<in> set ''abcdefghijklmnopqrstuvwxyzABCDEFGHIJKLMNOPQRSTUVWXYZ'')"

fun split_on :: "char \<Rightarrow> string \<Rightarrow> string list" where
  "split_on sep [] = [[]]"
| "split_on sep (c # cs) =
     (if c = sep then [] # split_on sep cs
      else (case split_on sep cs of p # ps \<Rightarrow> (c # p) # ps | [] \<Rightarrow> [[c]]))"

definition trim :: "string \<Rightarrow> string" where
  "trim s = rev (dropWhile is_space (rev (dropWhile is_space s)))"

fun join :: "string \<Rightarrow> string list \<Rightarrow> string" where
  "join sep [] = []"
| "join sep [x] = x"
| "join sep (x # y # ys) = x @ sep @ join sep (y # ys)"

definition starts_with :: "string \<Rightarrow> string \<Rightarrow> bool" where
  "starts_with s p = (take (length p) s = p)"

fun str_includes :: "string \<Rightarrow> string \<Rightarrow> bool" where
  "str_includes [] p = (p = [])"
| "str_includes (c # cs) p = (starts_with (c # cs) p \<or> str_includes cs p)"

subsection \<open>\<open>parseFloat\<close>\<close>

text \<open>
  \<open>parseFloat\<close> skips leading white space and reads the longest prefix that is a
  \<open>StrDecimalLiteral\<close>: an optional sign, then \<open>Infinity\<close> or decimal digits with an
  optional fraction and an optional exponent. Without such a prefix the result is
  \<open>NaN\<close>. The value is the exact decimal value of the prefix.
\<close>

definition digits_value :: "string \<Rightarrow> nat" where
  "digits_value ds = foldl (\<lambda>acc c. 10 * acc + digit_val c) 0 ds"

definition pow10 :: "int \<Rightarrow> real" where
  "pow10 e = (if 0 \<le> e then 10 ^ nat e else 1 / 10 ^ nat (- e))"

text \<open>Each scanner returns what it read and the rest of the string.\<close>

definition ExponentPart :: "string \<Rightarrow> int \<times> string" where
  "ExponentPart s =
     (if s \<noteq> [] \<and> (hd s = CHR ''e'' \<or> hd s = CHR ''E'') then
        let r = tl s;
            minus = (r \<noteq> [] \<and> hd r = CHR ''-'');
            ds = (if r \<noteq> [] \<and> (hd r = CHR ''-'' \<or> hd r = CHR ''+'') then tl r else r)
        in if takeWhile is_digit ds = [] then (0, s)
           else ((if minus then - 1 else 1) * int (digits_value (takeWhile is_digit ds)),
                 dropWhile is_digit ds)
      else (0, s))"

definition StrUnsignedDecimalLiteral :: "string \<Rightarrow> number \<times> string" where
  "StrUnsignedDecimalLiteral u =
     (if starts_with u ''Infinity'' then (PInf, drop 8 u)
      else
        let ip = takeWhile is_digit u;
            r1 = dropWhile is_digit u;
            dot = (r1 \<noteq> [] \<and> hd r1 = CHR ''.'');
            fp = (if dot then takeWhile is_digit (tl r1) else []);
            r2 = (if dot then dropWhile is_digit (tl r1) else r1)
        in if ip = [] \<and> fp = [] then (NaN, u)
           else (Fin ((real (digits_value ip) + real (digits_value fp) / 10 ^ length fp)
                      * pow10 (fst (ExponentPart r2))),
                 snd (ExponentPart r2)))"

fun negate :: "number \<Rightarrow> number" where
  "negate NaN = NaN"
| "negate NInf = PInf"
| "negate PInf = NInf"
| "negate (Fin x) = Fin (- x)"

definition StrDecimalLiteral :: "string \<Rightarrow> number \<times> string" where
  "StrDecimalLiteral s =
     (if s \<noteq> [] \<and> hd s = CHR ''-''
      then (negate (fst (StrUnsignedDecimalLiteral (tl s))), snd (StrUnsignedDecimalLiteral (tl s)))
      else if s \<noteq> [] \<and> hd s = CHR ''+'' then StrUnsignedDecimalLiteral (tl s)
      else StrUnsignedDecimalLiteral s)"

definition parseFloat :: "string \<Rightarrow> number" where
  "parseFloat s = fst (StrDecimalLiteral (dropWhile is_space s))"

section \<open>Log files\<close>

text \<open>
  \<^verbatim>\<open>
  function normalizeFilenameComponent(name: string) {
    return name.replace(/[^a-z0-9_\-]/gi, "_");
  }
  \<close>
  The file system is a map from path to file content. \<open>VAR\<close> is the data directory;
  a log path joins it with the file name, which holds no path separator.
\<close>

definition normalizeFilenameComponent :: "string \<Rightarrow> string" where
  "normalizeFilenameComponent name =
     map (\<lambda>c. if is_letter c \<or> is_digit c \<or> c = CHR ''_'' \<or> c = CHR ''-'' then c else CHR ''_'') name"

type_synonym filesystem = "string \<rightharpoonup> string"

definition VAR :: string where
  "VAR = ''var''"

definition log_path :: "string \<Rightarrow> string" where
  "log_path domain = VAR @ ''/'' @ ''domain-'' @ normalizeFilenameComponent domain @ ''.log''"

section \<open>Values, requests and responses\<close>

text \<open>
  A parsed JSON body is a JavaScript value; the own properties of an object are kept as
  an association list in property order. A response is a status code and a body; a
  string body is \<open>Text\<close> whether it goes out as plain text or as HTML.
\<close>

datatype jsvalue =
    Null
  | Boolean bool
  | Number number
  | String string
  | Array "jsvalue list"
  | Object "(string \<times> jsvalue) list"

type_synonym byte = "8 word"

datatype body = Text string | Json jsvalue | Octets "byte list" | Empty

record response =
  status_code :: nat
  body :: body

section \<open>Coercions, properties and JSON text\<close>

text \<open>
  \<open>Number_toString\<close> writes a finite number in decimal: the digits of the integer part
  and, after a point, the digits of the fraction (at most 1100 of them, enough for every
  double). For an integer below \<open>10^21\<close>, such as \<open>Date.now()\<close>, this is the text
  JavaScript prints; where the exact expansion of a double is long, JavaScript stops at
  the shortest prefix that reads back as the same double, and it switches to exponent
  notation from \<open>10^21\<close> on and below \<open>10^-6\<close>.
\<close>

definition digit_char :: "nat \<Rightarrow> char" where
  "digit_char d = ''0123456789'' ! d"

fun nat_digits :: "nat \<Rightarrow> string" where
  "nat_digits n = (if n < 10 then [digit_char n] else nat_digits (n div 10) @ [digit_char (n mod 10)])"

declare nat_digits.simps [simp del]

fun fraction_digits :: "nat \<Rightarrow> real \<Rightarrow> string" where
  "fraction_digits fuel f =
     (if fuel = 0 \<or> f = 0 then []
      else digit_char (nat \<lfloor>10 * f\<rfloor>) # fraction_digits (fuel - 1) (10 * f - real_of_int \<lfloor>10 * f\<rfloor>))"

declare fraction_digits.simps [simp del]

definition Number_toString :: "real \<Rightarrow> string" where
  "Number_toString x =
     (let a = \<bar>x\<bar>; f = a - real_of_int \<lfloor>a\<rfloor>
      in (if x < 0 then ''-'' else [])
         @ nat_digits (nat \<lfloor>a\<rfloor>)
         @ (if f = 0 then [] else CHR ''.'' # fraction_digits 1100 f))"

text \<open>
  \<open>StringToNumber\<close> is the conversion of a string to a number: white space at both ends
  is dropped, the empty string is 0, and the rest has to be one whole numeric literal,
  decimal or with the prefix \<open>0x\<close>, \<open>0o\<close> or \<open>0b\<close>.
\<close>

definition radix_digit :: "char \<Rightarrow> nat" where
  "radix_digit c =
     (if is_digit c then digit_val c
      else if c \<in> set ''abcdef'' then of_char c - 87
      else if c \<in> set ''ABCDEF'' then of_char c - 55
      else 99)"

definition radix_literal :: "nat \<Rightarrow> string \<Rightarrow> number" where
  "radix_literal base ds =
     (if ds \<noteq> [] \<and> list_all (\<lambda>c. radix_digit c < base) ds
      then Fin (real (foldl (\<lambda>acc c. base * acc + radix_digit c) 0 ds))
      else NaN)"

definition StringToNumber :: "string \<Rightarrow> number" where
  "StringToNumber s =
     (let t = trim s
      in if t = [] then Fin 0
         else if take 2 t = ''0x'' \<or> take 2 t = ''0X'' then radix_literal 16 (drop 2 t)
         else if take 2 t = ''0o'' \<or> take 2 t = ''0O'' then radix_literal 8 (drop 2 t)
         else if take 2 t = ''0b'' \<or> take 2 t = ''0B'' then radix_literal 2 (drop 2 t)
         else if snd (StrDecimalLiteral t) = [] then fst (StrDecimalLiteral t)
         else NaN)"

text \<open>
  \<open>ToNumber\<close> is the coercion that \<open>isNaN\<close> and \<open>Math.max\<close> apply to an argument. An
  array is first turned into the string of its elements joined by commas, so the empty
  array is 0, an array of one element takes the number of that element's string, and a
  longer array is \<open>NaN\<close>.
\<close>

fun ToNumber :: "jsvalue \<Rightarrow> number" where
  "ToNumber Null = Fin 0"
| "ToNumber (Boolean b) = Fin (if b then 1 else 0)"
| "ToNumber (Number n) = n"
| "ToNumber (String s) = StringToNumber s"
| "ToNumber (Object kvs) = NaN"
| "ToNumber (Array []) = Fin 0"
| "ToNumber (Array [Null]) = Fin 0"
| "ToNumber (Array [Number n]) = n"
| "ToNumber (Array [String s]) = StringToNumber s"
| "ToNumber (Array [Array xs]) = ToNumber (Array xs)"
| "ToNumber (Array xs) = NaN"

text \<open>
  The own properties of a value: the entries of an object, the indices of an array.
  \<open>get\<close> is the lookup \<open>o[k]\<close>, \<open>None\<close> for \<open>undefined\<close>; properties inherited from
  a prototype, such as \<open>constructor\<close>, are not represented. \<open>nullish\<close> is the operator
  \<open>??\<close>.
\<close>

fun entries :: "jsvalue \<Rightarrow> (string \<times> jsvalue) list" where
  "entries (Object kvs) = kvs"
| "entries (Array xs) = zip (map nat_digits [0..<length xs]) xs"
| "entries _ = []"

definition keys :: "jsvalue \<Rightarrow> string list" where
  "keys v = map fst (entries v)"

definition get :: "jsvalue \<Rightarrow> string \<Rightarrow> jsvalue option" where
  "get v k =
     (case map_of (entries v) k of
        Some x \<Rightarrow> Some x
      | None \<Rightarrow>
          (case v of
             Array xs \<Rightarrow> if k = ''length'' then Some (Number (Fin (real (length xs)))) else None
           | _ \<Rightarrow> None))"

fun nullish :: "jsvalue option \<Rightarrow> jsvalue \<Rightarrow> jsvalue" where
  "nullish None d = d"
| "nullish (Some Null) d = d"
| "nullish (Some v) d = v"

fun typeof_object :: "jsvalue \<Rightarrow> bool" where
  "typeof_object Null = True"
| "typeof_object (Array xs) = True"
| "typeof_object (Object kvs) = True"
| "typeof_object _ = False"

text \<open>
  \<open>JSON.stringify\<close>. A number that is not finite is written \<open>null\<close>. A string is put
  in double quotes, with the quote, the backslash and the control characters escaped.
\<close>

definition hex_digit :: "nat \<Rightarrow> char" where
  "hex_digit d = ''0123456789abcdef'' ! d"

definition escape_char :: "char \<Rightarrow> string" where
  "escape_char c =
     (if c = CHR 0x22 then [CHR 0x5C, CHR 0x22]
      else if c = CHR 0x5C then [CHR 0x5C, CHR 0x5C]
      else if c = CHR 0x08 then [CHR 0x5C, CHR ''b'']
      else if c = CHR 0x0C then [CHR 0x5C, CHR ''f'']
      else if c = CHR 0x0A then [CHR 0x5C, CHR ''n'']
      else if c = CHR 0x0D then [CHR 0x5C, CHR ''r'']
      else if c = CHR 0x09 then [CHR 0x5C, CHR ''t'']
      else if (of_char c :: nat) < 32
      then [CHR 0x5C, CHR ''u'', CHR ''0'', CHR ''0'',
            hex_digit (of_char c div 16), hex_digit (of_char c mod 16)]
      else [c])"

definition QuoteJSONString :: "string \<Rightarrow> string" where
  "QuoteJSONString s = [CHR 0x22] @ concat (map escape_char s) @ [CHR 0x22]"

fun JSON_stringify :: "jsvalue \<Rightarrow> string" where
  "JSON_stringify Null = ''null''"
| "JSON_stringify (Boolean b) = (if b then ''true'' else ''false'')"
| "JSON_stringify (Number NaN) = ''null''"
| "JSON_stringify (Number NInf) = ''null''"
| "JSON_stringify (Number PInf) = ''null''"
| "JSON_stringify (Number (Fin x)) = Number_toString x"
| "JSON_stringify (String s) = QuoteJSONString s"
| "JSON_stringify (Array xs) = ''['' @ join '','' (map JSON_stringify xs) @ '']''"
| "JSON_stringify (Object kvs) =
     ''{'' @ join '','' (map (\<lambda>kv. QuoteJSONString (fst kv) @ '':'' @ JSON_stringify (snd kv)) kvs)
     @ ''}''"

section \<open>The history query\<close>

text \<open>
  The loop of \<^verbatim>\<open>GET /history/:domain\<close> over the lines of the log. Its variables are
  the fields of \<open>loop_state\<close>; \<open>history_step\<close> is one iteration, where every
  \<^verbatim>\<open>continue\<close> returns the state as it is. \<open>split\<close> and \<open>parseFloat\<close> never throw,
  so the \<^verbatim>\<open>catch\<close> branch has no counterpart.
\<close>

record loop_state =
  result :: "string list"
  lastTime :: number
  firstMatchingLine :: "string option"
  lastMatchingLine :: "string option"

definition init_state :: loop_state where
  "init_state = \<lparr>result = [], lastTime = NInf, firstMatchingLine = None, lastMatchingLine = None\<rparr>"

definition history_step ::
  "number option \<Rightarrow> number \<Rightarrow> number \<Rightarrow> loop_state \<Rightarrow> string \<Rightarrow> loop_state" where
  "history_step start end step st line =
     (if line = [] then st
      else
        let parts = split_on CHR '','' line in
        if 2 \<le> length parts then
          let timestamp = parseFloat (hd parts);
              time = js_div timestamp (Fin 1000)
          in if (case start of None \<Rightarrow> False | Some s \<Rightarrow> js_lt time s) then st
             else if js_gt time end then st
             else
               let st1 = (if firstMatchingLine st = None
                          then st\<lparr>firstMatchingLine := Some line\<rparr> else st);
                   st2 = st1\<lparr>lastMatchingLine := Some line\<rparr>
               in if js_ge (js_sub time (lastTime st2)) step
                  then st2\<lparr>result := result st2 @ [line], lastTime := time\<rparr>
                  else st2
        else st)"

fun history_loop ::
  "number option \<Rightarrow> number \<Rightarrow> number \<Rightarrow> loop_state \<Rightarrow> string list \<Rightarrow> loop_state" where
  "history_loop start end step st [] = st"
| "history_loop start end step st (line # lines) =
     history_loop start end step (history_step start end step st line) lines"

text \<open>
  \<open>line_time\<close> is the time the loop computes for a line. The loop \<open>keeps\<close> a line when
  it takes none of its \<^verbatim>\<open>continue\<close> statements: the line is not empty, it has a
  comma, and its time is neither below \<open>start\<close> nor above \<open>end\<close>.
\<close>

definition line_time :: "string \<Rightarrow> number" where
  "line_time line = js_div (parseFloat (hd (split_on CHR '','' line))) (Fin 1000)"

definition keeps :: "number option \<Rightarrow> number \<Rightarrow> string \<Rightarrow> bool" where
  "keeps start end line =
     (line \<noteq> [] \<and> 2 \<le> length (split_on CHR '','' line)
      \<and> \<not> (case start of None \<Rightarrow> False | Some s \<Rightarrow> js_lt (line_time line) s)
      \<and> \<not> js_gt (line_time line) end)"

definition timed :: "string \<Rightarrow> number \<times> string" where
  "timed line = (line_time line, line)"

text \<open>The assembly of \<open>finalResult\<close> after the loop.\<close>

definition finalResult :: "loop_state \<Rightarrow> string list" where
  "finalResult st =
     (case firstMatchingLine st of None \<Rightarrow> [] | Some f \<Rightarrow> [f])
     @ filter (\<lambda>line. Some line \<noteq> firstMatchingLine st \<and> Some line \<noteq> lastMatchingLine st)
         (result st)
     @ (case lastMatchingLine st of
          None \<Rightarrow> []
        | Some l \<Rightarrow> if lastMatchingLine st \<noteq> firstMatchingLine st then [l] else [])"

text \<open>
  The query parameters. A parameter that is absent or empty is falsy and takes its
  default: no lower bound, the current time in seconds, 60 seconds. \<open>now\<close> is
  \<open>Date.now()\<close>, in milliseconds.
\<close>

record history_request =
  domain :: string
  startParam :: "string option"
  endParam :: "string option"
  stepParam :: "string option"

fun truthy :: "string option \<Rightarrow> bool" where
  "truthy None = False"
| "truthy (Some s) = (s \<noteq> [])"

definition query_start :: "history_request \<Rightarrow> number option" where
  "query_start req =
     (if truthy (startParam req) then Some (parseFloat (the (startParam req))) else None)"

definition query_end :: "nat \<Rightarrow> history_request \<Rightarrow> number" where
  "query_end now req =
     (if truthy (endParam req) then parseFloat (the (endParam req))
      else js_div (Fin (real now)) (Fin 1000))"

definition query_step :: "history_request \<Rightarrow> number" where
  "query_step req =
     (if truthy (stepParam req) then parseFloat (the (stepParam req)) else Fin 60)"

definition newline :: char where
  "newline = CHR 0x0A"

text \<open>
  The handler. Reading the file cannot fail in this model (a path is absent or maps to
  its content), so the response 500 of the outer \<^verbatim>\<open>catch\<close> is not reached.
\<close>

definition history :: "filesystem \<Rightarrow> nat \<Rightarrow> history_request \<Rightarrow> response" where
  "history fs now req =
     (let start = query_start req;
          end = query_end now req;
          step = query_step req
      in if (case start of None \<Rightarrow> False | Some s \<Rightarrow> isNaN s)
         then \<lparr>status_code = 400, body = Text ''Bad Request: invalid start timestamp''\<rparr>
         else if isNaN end
         then \<lparr>status_code = 400, body = Text ''Bad Request: invalid end timestamp''\<rparr>
         else if isNaN step \<or> js_le step (Fin 0)
         then \<lparr>status_code = 400, body = Text ''Bad Request: invalid step (must be > 0)''\<rparr>
         else
           (case fs (log_path (domain req)) of
              None \<Rightarrow> \<lparr>status_code = 200, body = Json (Array [])\<rparr>
            | Some fileContent \<Rightarrow>
                let lines = split_on newline (trim fileContent);
                    st = history_loop start end step init_state lines
                in \<lparr>status_code = 200, body = Text (join [newline] (finalResult st))\<rparr>))"

section \<open>Buffers and 32-bit floats\<close>

text \<open>
  \<open>readFloatLE\<close> reads four bytes, least significant first, as an IEEE-754 binary32
  value; outside the buffer it throws, which is \<open>None\<close> here. \<open>writeFloatLE\<close> rounds
  a number to the nearest binary32 value, ties to the even mantissa, and returns its four
  bytes. The bit pattern is a natural number below \<open>2^32\<close>.
\<close>

definition le_uint32 :: "byte list \<Rightarrow> nat" where
  "le_uint32 bs = foldr (\<lambda>b n. unat b + 256 * n) bs 0"

definition float32_value :: "nat \<Rightarrow> number" where
  "float32_value bits =
     (let negative = (2 ^ 31 \<le> bits);
          e = (bits div 2 ^ 23) mod 256;
          m = bits mod 2 ^ 23;
          magnitude =
            (if e = 0 then real m / 2 ^ 149
             else if 150 \<le> e then real (2 ^ 23 + m) * 2 ^ (e - 150)
             else real (2 ^ 23 + m) / 2 ^ (150 - e))
      in if e = 255 then (if m = 0 then (if negative then NInf else PInf) else NaN)
         else Fin (if negative then - magnitude else magnitude))"

definition readFloatLE :: "byte list \<Rightarrow> nat \<Rightarrow> number option" where
  "readFloatLE buf offset =
     (if offset + 4 \<le> length buf
      then Some (float32_value (le_uint32 (take 4 (drop offset buf))))
      else None)"

fun halvings :: "nat \<Rightarrow> real \<Rightarrow> nat" where
  "halvings fuel x = (if fuel = 0 \<or> x < 2 then 0 else Suc (halvings (fuel - 1) (x / 2)))"

fun doublings :: "nat \<Rightarrow> real \<Rightarrow> nat" where
  "doublings fuel x = (if fuel = 0 \<or> 1 \<le> x then 0 else Suc (doublings (fuel - 1) (2 * x)))"

declare halvings.simps [simp del] doublings.simps [simp del]

definition round_half_even :: "real \<Rightarrow> nat" where
  "round_half_even q =
     (let f = nat \<lfloor>q\<rfloor>; r = q - real_of_int \<lfloor>q\<rfloor>
      in if r < 1 / 2 then f else if 1 / 2 < r then f + 1 else if even f then f else f + 1)"

text \<open>
  The pattern of a magnitude \<open>x > 0\<close>: with \<open>2^e \<le> x < 2^(e+1)\<close> and \<open>e\<close> kept at
  \<open>-126\<close> or above, the mantissa is \<open>x / 2^(e-23)\<close> rounded, and the pattern is
  \<open>(e + 126) * 2^23\<close> plus the mantissa, so that a mantissa rounded up to \<open>2^24\<close>
  carries into the exponent. From \<open>2^128\<close> on, and when the carry reaches the exponent
  255, the value is an infinity.
\<close>

definition float32_magnitude :: "real \<Rightarrow> nat" where
  "float32_magnitude x =
     (if x = 0 then 0
      else if 1 \<le> x then
        (let e = halvings 128 x
         in if e = 128 then 255 * 2 ^ 23
            else min (255 * 2 ^ 23)
                   ((e + 126) * 2 ^ 23
                    + (if e \<le> 23 then round_half_even (x * 2 ^ (23 - e))
                       else round_half_even (x / 2 ^ (e - 23)))))
      else
        (let d = doublings 126 x
         in (126 - d) * 2 ^ 23 + round_half_even (x * 2 ^ (23 + d))))"

definition float32_bits :: "number \<Rightarrow> nat" where
  "float32_bits v =
     (case v of
        NaN \<Rightarrow> 0x7FC00000
      | PInf \<Rightarrow> 0x7F800000
      | NInf \<Rightarrow> 0xFF800000
      | Fin x \<Rightarrow> (if x < 0 then 2 ^ 31 else 0) + float32_magnitude \<bar>x\<bar>)"

definition writeFloatLE :: "number \<Rightarrow> byte list" where
  "writeFloatLE v =
     (let bits = float32_bits v
      in [of_nat (bits mod 256), of_nat (bits div 2 ^ 8 mod 256),
          of_nat (bits div 2 ^ 16 mod 256), of_nat (bits div 2 ^ 24 mod 256)])"

section \<open>The server state\<close>

text \<open>
  The globals of the server: \<open>domains\<close>, the parsed body of the last accepted detections
  post (initially \<open>{}\<close>); the map \<open>status\<close>; \<open>detectionsTimeoutHandle\<close>. The pending
  timeouts of the event loop are kept as pairs of a handle and the time they are due, and
  \<open>files\<close> is the data directory. \<open>fs.appendFile\<close> is taken to have completed before
  the next request is handled.
\<close>

record Status =
  population :: jsvalue
  fan_power :: "number option"
  temperature :: "number option"
  humidity :: "number option"
  fan_rpm :: "number option"

record server =
  domains :: jsvalue
  status :: "string \<rightharpoonup> Status"
  detectionsTimeoutHandle :: "nat option"
  timers :: "(nat \<times> nat) list"
  next_handle :: nat
  files :: filesystem

definition initial_server :: "filesystem \<Rightarrow> server" where
  "initial_server fs =
     \<lparr>domains = Object [], status = Map.empty, detectionsTimeoutHandle = None,
      timers = [], next_handle = 0, files = fs\<rparr>"

text \<open>
  A request as a handler sees it: the \<open>Content-Type\<close> header if there is one, the answer
  of \<open>req.is("application/json")\<close>, and \<open>req.body\<close> as the body parsers left it: a
  \<open>Buffer\<close>, a parsed JSON value, or \<open>undefined\<close>. \<open>body_value\<close> is the body as a
  value; a \<open>Buffer\<close> is an object whose own properties are its bytes by index.
\<close>

datatype request_body = Buffer "byte list" | Parsed jsvalue | Undefined

record request =
  content_type :: "string option"
  is_json :: bool
  req_body :: request_body

fun isBuffer :: "request_body \<Rightarrow> bool" where
  "isBuffer (Buffer buf) = True"
| "isBuffer _ = False"

fun buffer_bytes :: "request_body \<Rightarrow> byte list" where
  "buffer_bytes (Buffer buf) = buf"
| "buffer_bytes _ = []"

fun body_value :: "request_body \<Rightarrow> jsvalue option" where
  "body_value (Buffer buf) = Some (Array (map (\<lambda>b. Number (Fin (real (unat b)))) buf))"
| "body_value (Parsed v) = Some v"
| "body_value Undefined = None"

subsection \<open>The inactivity timer\<close>

text \<open>
  \<^verbatim>\<open>
  function resetDetectionsTimeout() {
    if (detectionsTimeoutHandle) clearTimeout(detectionsTimeoutHandle);
    detectionsTimeoutHandle = setTimeout(() => {
      domains = {}; status.clear(); detectionsTimeoutHandle = null;
    }, detectionsTimeout);
  }
  \<close>
  \<open>detectionsTimeout\<close> is the configured delay, a natural number of milliseconds.
  \<open>run_timers\<close> is the
  event loop at the time \<open>now\<close>: every timeout that is due leaves the pending list and
  its callback runs.
\<close>

definition clearTimeout :: "nat \<Rightarrow> server \<Rightarrow> server" where
  "clearTimeout h st = st\<lparr>timers := filter (\<lambda>(h', due). h' \<noteq> h) (timers st)\<rparr>"

definition setTimeout :: "nat \<Rightarrow> nat \<Rightarrow> server \<Rightarrow> nat \<times> server" where
  "setTimeout now delay st =
     (next_handle st,
      st\<lparr>timers := timers st @ [(next_handle st, now + delay)], next_handle := next_handle st + 1\<rparr>)"

definition timeout_callback :: "server \<Rightarrow> server" where
  "timeout_callback st =
     st\<lparr>domains := Object [], status := Map.empty, detectionsTimeoutHandle := None\<rparr>"

definition resetDetectionsTimeout :: "nat \<Rightarrow> nat \<Rightarrow> server \<Rightarrow> server" where
  "resetDetectionsTimeout detectionsTimeout now st =
     (let st1 = (case detectionsTimeoutHandle st of None \<Rightarrow> st | Some h \<Rightarrow> clearTimeout h st);
          (h, st2) = setTimeout now detectionsTimeout st1
      in st2\<lparr>detectionsTimeoutHandle := Some h\<rparr>)"

definition run_timers :: "nat \<Rightarrow> server \<Rightarrow> server" where
  "run_timers now st =
     fold (\<lambda>t. timeout_callback) (filter (\<lambda>(h, due). due \<le> now) (timers st))
       (st\<lparr>timers := filter (\<lambda>(h, due). \<not> due \<le> now) (timers st)\<rparr>)"

subsection \<open>\<^verbatim>\<open>POST /detections\<close>\<close>

definition post_detections :: "nat \<Rightarrow> nat \<Rightarrow> request \<Rightarrow> server \<Rightarrow> response \<times> server" where
  "post_detections detectionsTimeout now req st =
     (if is_json req then
        (case body_value (req_body req) of
           None \<Rightarrow>
             (\<lparr>status_code = 400, body = Text ''Bad Request: body must be a JSON object.''\<rparr>, st)
         | Some detections \<Rightarrow>
             if \<not> typeof_object detections \<or> detections = Null
             then (\<lparr>status_code = 400, body = Text ''Bad Request: body must be a JSON object.''\<rparr>, st)
             else
               let domainNames = set (keys detections);
                   st1 = st\<lparr>domains := detections,
                            status := (\<lambda>domain. if domain \<in> domainNames then status st domain else None)\<rparr>
               in (\<lparr>status_code = 200, body = Empty\<rparr>,
                   resetDetectionsTimeout detectionsTimeout now st1))
      else
        (\<lparr>status_code = 400,
          body = Text (''Bad Request type ''
                       @ (case content_type req of None \<Rightarrow> ''undefined'' | Some h \<Rightarrow> h)
                       @ '', expected application/json.'')\<rparr>, st))"

subsection \<open>\<^verbatim>\<open>POST /unit/:domain\<close>\<close>

text \<open>
  \<open>timestamp\<close> is \<open>Date.now()\<close>. \<open>populationToFanPower\<close> uses its argument in
  \<open>isNaN\<close> and \<open>Math.max\<close> only, which both coerce it with \<open>ToNumber\<close>. A read outside
  the buffer would throw and the framework would answer 500; the length test rules it
  out. The local variables \<open>temperature\<close>, \<open>humidity\<close>, \<open>fan_rpm\<close> and
  \<open>population\<close> are \<open>temp\<close>, \<open>hum\<close>, \<open>rpm\<close> and \<open>pop\<close>.
\<close>

definition append_file :: "string \<Rightarrow> string \<Rightarrow> filesystem \<Rightarrow> filesystem" where
  "append_file path text fs = fs(path \<mapsto> (case fs path of None \<Rightarrow> [] | Some old \<Rightarrow> old) @ text)"

definition telemetry_line :: "nat \<Rightarrow> number \<Rightarrow> number \<Rightarrow> number \<Rightarrow> jsvalue \<Rightarrow> string" where
  "telemetry_line timestamp temp hum rpm pop =
     join '',''
       [nat_digits timestamp,
        JSON_stringify (Object [(''temperature'', Number temp), (''humidity'', Number hum),
                                (''fan_rpm'', Number rpm), (''population'', pop)])]"

definition post_unit :: "nat \<Rightarrow> string \<Rightarrow> request \<Rightarrow> server \<Rightarrow> response \<times> server" where
  "post_unit timestamp domain_param req st =
     (let domain = (if domain_param = [] then ''default'' else domain_param);
          contentType = (case content_type req of None \<Rightarrow> [] | Some h \<Rightarrow> h)
      in if str_includes contentType ''application/octet-stream''
            \<and> isBuffer (req_body req) \<and> 12 \<le> length (buffer_bytes (req_body req))
         then
           (case (readFloatLE (buffer_bytes (req_body req)) 0,
                  readFloatLE (buffer_bytes (req_body req)) 4,
                  readFloatLE (buffer_bytes (req_body req)) 8) of
              (Some temp, Some hum, Some rpm) \<Rightarrow>
                let pop = nullish (get (domains st) domain) (Number NaN);
                    power = populationToFanPower (ToNumber pop);
                    responseBuffer = writeFloatLE power;
                    db = log_path domain;
                    line = telemetry_line timestamp temp hum rpm pop
                in (\<lparr>status_code = 200, body = Octets responseBuffer\<rparr>,
                    st\<lparr>status := (status st)(domain \<mapsto>
                          \<lparr>population = pop, fan_power = Some power,
                           temperature = Some temp, humidity = Some hum,
                           fan_rpm = Some rpm\<rparr>),
                       files := append_file db (line @ [newline]) (files st)\<rparr>)
            | _ \<Rightarrow> (\<lparr>status_code = 500, body = Text ''Internal Server Error''\<rparr>, st))
         else (\<lparr>status_code = 400, body = Text ''Bad Request''\<rparr>, st))"

subsection \<open>\<^verbatim>\<open>GET /status\<close>\<close>

definition optional :: "string \<Rightarrow> number option \<Rightarrow> (string \<times> jsvalue) list" where
  "optional k v = (case v of None \<Rightarrow> [] | Some x \<Rightarrow> [(k, Number x)])"

definition Status_value :: "Status \<Rightarrow> jsvalue" where
  "Status_value s =
     Object ([(''population'', population s)] @ optional ''fan_power'' (fan_power s)
             @ optional ''temperature'' (temperature s) @ optional ''humidity'' (humidity s)
             @ optional ''fan_rpm'' (fan_rpm s))"

definition statusRecord :: "server \<Rightarrow> (string \<times> jsvalue) list" where
  "statusRecord st =
     map (\<lambda>domain.
            (domain,
             case status st domain of
               Some s \<Rightarrow> Status_value s
             | None \<Rightarrow>
                 Object (case get (domains st) domain of
                           None \<Rightarrow> [] | Some pop \<Rightarrow> [(''population'', pop)])))
       (keys (domains st))"

definition get_status :: "server \<Rightarrow> response" where
  "get_status st = \<lparr>status_code = 200, body = Json (Object (statusRecord st))\<rparr>"

subsection \<open>Requests in time\<close>

text \<open>
  A request arrives at a time; the timeouts that are due by then have fired before its
  handler runs.
\<close>

datatype event =
    PostDetections request
  | PostUnit string request
  | GetStatus
  | GetHistory history_request

definition handle :: "nat \<Rightarrow> nat \<Rightarrow> event \<Rightarrow> server \<Rightarrow> response \<times> server" where
  "handle detectionsTimeout now ev st =
     (let st1 = run_timers now st
      in case ev of
           PostDetections req \<Rightarrow> post_detections detectionsTimeout now req st1
         | PostUnit name req \<Rightarrow> post_unit now name req st1
         | GetStatus \<Rightarrow> (get_status st1, st1)
         | GetHistory req \<Rightarrow> (history (files st1) now req, st1))"

fun run :: "nat \<Rightarrow> (nat \<times> event) list \<Rightarrow> server \<Rightarrow> server" where
  "run detectionsTimeout [] st = st"
| "run detectionsTimeout ((now, ev) # evs) st =
     run detectionsTimeout evs (snd (handle detectionsTimeout now ev st))"

section \<open>The detections handler of \<^verbatim>\<open>src/server/index.ts\<close>\<close>

text \<open>
  The other version of the server keeps \<open>domains\<close> as a \<open>Map\<close> from name to count and
  checks every entry of the body:
  \<^verbatim>\<open>
  for (const [domain, count] of Object.entries(detections)) {
    if (typeof count === "number" && count >= 0) { domains.set(domain, count); console.log(...) }
    else { console.log(`Invalid count for domain ...`) }
  }
  \<close>
  The console is the list of messages, each kept as its kind and its arguments.
\<close>

datatype message =
    Updated string number
  | Invalid string jsvalue

fun index_entry ::
  "(string \<rightharpoonup> number) \<times> message list \<Rightarrow> string \<times> jsvalue \<Rightarrow> (string \<rightharpoonup> number) \<times> message list" where
  "index_entry (m, console) (name, Number count) =
     (if js_ge count (Fin 0) then (m(name \<mapsto> count), console @ [Updated name count])
      else (m, console @ [Invalid name (Number count)]))"
| "index_entry (m, console) (name, count) = (m, console @ [Invalid name count])"

definition index_post_detections ::
  "request \<Rightarrow> (string \<rightharpoonup> number) \<Rightarrow> response \<times> (string \<rightharpoonup> number) \<times> message list" where
  "index_post_detections req m =
     (if is_json req then
        (case body_value (req_body req) of
           None \<Rightarrow>
             (\<lparr>status_code = 400, body = Text ''Bad Request: body must be a JSON object.''\<rparr>, m, [])
         | Some detections \<Rightarrow>
             if \<not> typeof_object detections \<or> detections = Null
             then (\<lparr>status_code = 400, body = Text ''Bad Request: body must be a JSON object.''\<rparr>,
                   m, [])
             else (\<lparr>status_code = 200, body = Empty\<rparr>,
                   foldl index_entry (m, []) (entries detections)))
      else
        (\<lparr>status_code = 400,
          body = Text (''Bad Request type ''
                       @ (case content_type req of None \<Rightarrow> ''undefined'' | Some h \<Rightarrow> h)
                       @ '', expected application/json.'')\<rparr>, m, []))"

section \<open>Notions used in the statements about the server\<close>

text \<open>
  A detections post is accepted when \<open>req.is("application/json")\<close> holds and the
  body is an object: a value of type \<open>object\<close> other than \<open>null\<close>. A count is valid
  when it is a number that is at least 0. \<open>report\<close> is the console message of
  \<^verbatim>\<open>src/server/index.ts\<close> for an entry.
\<close>

definition accepts_detections :: "request \<Rightarrow> bool" where
  "accepts_detections req =
     (is_json req
      \<and> (case body_value (req_body req) of
            None \<Rightarrow> False
          | Some detections \<Rightarrow> typeof_object detections \<and> detections \<noteq> Null))"

definition valid_count :: "jsvalue \<Rightarrow> number option" where
  "valid_count v =
     (case v of Number c \<Rightarrow> if js_ge c (Fin 0) then Some c else None | _ \<Rightarrow> None)"

definition report :: "string \<times> jsvalue \<Rightarrow> message" where
  "report e =
     (case valid_count (snd e) of
        Some c \<Rightarrow> Updated (fst e) c
      | None \<Rightarrow> Invalid (fst e) (snd e))"

text \<open>
  The pending timeout is \<open>single\<close> when the event loop holds exactly the timeout that
  \<open>detectionsTimeoutHandle\<close> names, and none when the handle is \<open>null\<close>.
\<close>

definition single_timer :: "server \<Rightarrow> bool" where
  "single_timer st =
     (map fst (timers st) = (case detectionsTimeoutHandle st of None \<Rightarrow> [] | Some h \<Rightarrow> [h]))"


text \<open>
  Two states of the timer after a detections post: its timeout is \<open>pending\<close> with a
  given due time, or it has fired and nothing was posted since (\<open>cleared\<close>).
\<close>

definition pending :: "nat \<Rightarrow> server \<Rightarrow> bool" where
  "pending due st = (\<exists>h. timers st = [(h, due)] \<and> detectionsTimeoutHandle st = Some h)"

definition cleared :: "server \<Rightarrow> bool" where
  "cleared st = (timers st = [] \<and> detectionsTimeoutHandle st = None \<and> domains st = Object [])"

fun is_detections :: "event \<Rightarrow> bool" where
  "is_detections (PostDetections req) = True"
| "is_detections _ = False"

section \<open>The history query as the specification words it\<close>

text \<open>
  The second reading of the query, following the steps of the specification: parse the
  leading timestamp of each line into seconds and drop the lines where that fails;
  keep the lines with \<open>time >= start\<close> (when a start is given) and \<open>time <= end\<close>;
  downsample with \<open>time - lastIncludedTime >= step\<close> from \<open>-Infinity\<close>; put the first
  matching line in front and the last one, when distinct, at the end.
\<close>

definition spec_line_time :: "string \<Rightarrow> number option" where
  "spec_line_time line =
     (case split_on CHR '','' line of
        ts # _ # _ \<Rightarrow>
          (let t = parseFloat ts in if isNaN t then None else Some (js_div t (Fin 1000)))
      | _ \<Rightarrow> None)"

definition spec_timed_lines :: "string list \<Rightarrow> (number \<times> string) list" where
  "spec_timed_lines lines =
     List.map_filter (\<lambda>line. map_option (\<lambda>t. (t, line)) (spec_line_time line)) lines"

definition spec_in_range :: "number option \<Rightarrow> number \<Rightarrow> number \<Rightarrow> bool" where
  "spec_in_range start end t =
     ((case start of None \<Rightarrow> True | Some s \<Rightarrow> js_ge t s) \<and> js_le t end)"

definition spec_matching ::
  "number option \<Rightarrow> number \<Rightarrow> string list \<Rightarrow> (number \<times> string) list" where
  "spec_matching start end lines =
     filter (\<lambda>(t, line). spec_in_range start end t) (spec_timed_lines lines)"

fun spec_downsample :: "number \<Rightarrow> number \<Rightarrow> (number \<times> string) list \<Rightarrow> string list" where
  "spec_downsample step lastIncludedTime [] = []"
| "spec_downsample step lastIncludedTime ((t, line) # rest) =
     (if js_ge (js_sub t lastIncludedTime) step
      then line # spec_downsample step t rest
      else spec_downsample step lastIncludedTime rest)"

definition spec_assemble :: "number \<Rightarrow> (number \<times> string) list \<Rightarrow> string list" where
  "spec_assemble step matching =
     (case matching of
        [] \<Rightarrow> []
      | m # ms \<Rightarrow>
          let first = snd m; final = snd (last (m # ms))
          in [first]
             @ filter (\<lambda>line. line \<noteq> first \<and> line \<noteq> final)
                 (spec_downsample step NInf (m # ms))
             @ (if final \<noteq> first then [final] else []))"

definition spec_output ::
  "number option \<Rightarrow> number \<Rightarrow> number \<Rightarrow> string list \<Rightarrow> string list" where
  "spec_output start end step lines = spec_assemble step (spec_matching start end lines)"

text \<open>
  A line is \<open>timestamped\<close> when it has no comma (the loop skips it) or the text before
  its first comma starts with a number. \<open>log_of\<close> is the content of a log file that
  holds the given lines, each followed by a newline as the telemetry handler writes it.
\<close>

definition timestamped :: "string \<Rightarrow> bool" where
  "timestamped line =
     (length (split_on CHR '','' line) < 2
      \<or> \<not> isNaN (parseFloat (hd (split_on CHR '','' line))))"

definition log_of :: "string list \<Rightarrow> string" where
  "log_of lines = concat (map (\<lambda>line. line @ [newline]) lines)"

section \<open>Properties of the actuation policy\<close>

text \<open>
  Claim C2. \<open>populationToFanPower\<close> clamps a finite population to \<open>[0, 2]\<close> and halves
  it, so the result of a finite argument is a finite value between 0 and 1; \<open>NaN\<close> is
  returned for \<open>NaN\<close>; the arguments 0, 2, 5 and -1 give 0, 1, 1 and 0.
\<close>

theorem populationToFanPower_clamps:
  "populationToFanPower (Fin p) = Fin (min (max p 0) 2 / 2)
   \<and> 0 \<le> min (max p 0) 2 / 2 \<and> min (max p 0) 2 / 2 \<le> 1
   \<and> populationToFanPower NaN = NaN
   \<and> populationToFanPower (Fin 0) = Fin 0
   \<and> populationToFanPower (Fin 2) = Fin 1
   \<and> populationToFanPower (Fin 5) = Fin 1
   \<and> populationToFanPower (Fin (- 1)) = Fin 0"
  by (simp add: populationToFanPower_def Math_max_def Math_min_def Let_def min_def max_def)

section \<open>The loop of the history query computes the specified output\<close>

lemma isNaN_iff: "isNaN x \<longleftrightarrow> x = NaN" by (cases x) simp_all
lemma js_div_1000_NaN: "js_div x (Fin 1000) = NaN \<longleftrightarrow> x = NaN" by (cases x) simp_all
lemma not_lt_ge: "a \<noteq> NaN \<Longrightarrow> b \<noteq> NaN \<Longrightarrow> (\<not> js_lt a b) = js_le b a"
  by (cases a; cases b) auto


lemma split_on_nonempty: "split_on c s \<noteq> []"
  by (induction s) (auto split: list.splits)

lemma step_skip: "\<not> keeps start end l \<Longrightarrow> history_step start end step st l = st"
  by (cases start) (auto simp add: history_step_def keeps_def line_time_def Let_def)

lemma step_keep:
  "keeps start end l \<Longrightarrow>
   history_step start end step st l =
     (let st2 = st\<lparr>firstMatchingLine :=
                     (if firstMatchingLine st = None then Some l else firstMatchingLine st),
                   lastMatchingLine := Some l\<rparr>
      in if js_ge (js_sub (line_time l) (lastTime st)) step
         then st2\<lparr>result := result st @ [l], lastTime := line_time l\<rparr> else st2)"
  by (cases start) (auto simp add: history_step_def keeps_def line_time_def Let_def)

lemma loop_result:
  "result (history_loop start end step st ls) =
   result st @ spec_downsample step (lastTime st) (map timed (filter (keeps start end) ls))"
proof (induction ls arbitrary: st)
  case Nil
  show ?case by simp
next
  case (Cons l ls)
  show ?case
  proof (cases "keeps start end l")
    case True
    then show ?thesis by (simp add: step_keep Cons.IH timed_def Let_def)
  next
    case False
    then show ?thesis by (simp add: step_skip Cons.IH)
  qed
qed

lemma loop_first:
  "firstMatchingLine (history_loop start end step st ls) =
   (case firstMatchingLine st of
      Some f \<Rightarrow> Some f
    | None \<Rightarrow> (case filter (keeps start end) ls of [] \<Rightarrow> None | m # ms \<Rightarrow> Some m))"
proof (induction ls arbitrary: st)
  case Nil
  show ?case by (simp split: option.splits)
next
  case (Cons l ls)
  show ?case
  proof (cases "keeps start end l")
    case True
    then have eq: "filter (keeps start end) (l # ls) = l # filter (keeps start end) ls" by simp
    show ?thesis
      using True by (simp add: step_keep Cons.IH Let_def eq split: option.splits)
  next
    case False
    then have eq: "filter (keeps start end) (l # ls) = filter (keeps start end) ls" by simp
    show ?thesis
      using False by (simp add: step_skip Cons.IH eq split: option.splits)
  qed
qed

lemma loop_last:
  "lastMatchingLine (history_loop start end step st ls) =
   (case filter (keeps start end) ls of
      [] \<Rightarrow> lastMatchingLine st
    | m # ms \<Rightarrow> Some (last (m # ms)))"
proof (induction ls arbitrary: st)
  case Nil
  show ?case by simp
next
  case (Cons l ls)
  show ?case
  proof (cases "keeps start end l")
    case True
    then show ?thesis by (simp add: step_keep Cons.IH Let_def split: list.splits)
  next
    case False
    then show ?thesis by (simp add: step_skip Cons.IH)
  qed
qed

lemma loop_output:
  "finalResult (history_loop start end step init_state ls) =
   spec_assemble step (map timed (filter (keeps start end) ls))"
proof (cases "filter (keeps start end) ls")
  case Nil
  then show ?thesis
    by (simp add: finalResult_def spec_assemble_def loop_result loop_first loop_last init_state_def)
next
  case (Cons m ms)
  have "last (map timed (m # ms)) = timed (last (m # ms))" by (rule last_map) simp
  then have la: "snd (last (timed m # map timed ms)) = last (m # ms)" by (simp add: timed_def)
  show ?thesis
    using la
    by (simp add: finalResult_def spec_assemble_def loop_result loop_first loop_last
        init_state_def Cons Let_def timed_def del: last.simps)
qed

text \<open>
  On a log whose lines are all \<open>timestamped\<close>, and for bounds that are not \<open>NaN\<close>, the
  lines the loop keeps are the matching lines of the specification.
\<close>

lemma keeps_iff_spec:
  assumes "timestamped l" "start \<noteq> Some NaN" "end \<noteq> NaN"
  shows "spec_matching start end [l] = (if keeps start end l then [timed l] else [])"
proof (cases "split_on CHR '','' l")
  case Nil
  then show ?thesis by (simp add: split_on_nonempty)
next
  case (Cons p ps)
  show ?thesis
  proof (cases ps)
    case Nil
    then show ?thesis
      using Cons
      by (simp add: spec_matching_def spec_timed_lines_def List.map_filter_def spec_line_time_def
          keeps_def)
  next
    case (Cons q qs)
    have ne: "l \<noteq> []" using \<open>split_on CHR '','' l = p # ps\<close> Cons by auto
    have t: "parseFloat p \<noteq> NaN"
      using assms(1) \<open>split_on CHR '','' l = p # ps\<close> Cons by (simp add: timestamped_def isNaN_iff)
    then have lt: "line_time l \<noteq> NaN"
      using \<open>split_on CHR '','' l = p # ps\<close> by (simp add: line_time_def js_div_1000_NaN)
    have lo: "(case start of None \<Rightarrow> True | Some s \<Rightarrow> js_ge (line_time l) s)
              \<longleftrightarrow> \<not> (case start of None \<Rightarrow> False | Some s \<Rightarrow> js_lt (line_time l) s)"
      using lt assms(2) by (cases start) (simp_all add: js_ge_def not_lt_ge)
    have hi: "js_le (line_time l) end \<longleftrightarrow> \<not> js_gt (line_time l) end"
      using lt assms(3) by (simp add: js_gt_def not_lt_ge)
    have sp: "spec_line_time l = Some (line_time l)"
      using t \<open>split_on CHR '','' l = p # ps\<close> Cons
      by (simp add: spec_line_time_def line_time_def isNaN_iff)
    show ?thesis
      using ne lo hi \<open>split_on CHR '','' l = p # ps\<close> Cons
      by (simp add: spec_matching_def spec_timed_lines_def List.map_filter_def sp
          spec_in_range_def keeps_def timed_def)
  qed
qed

lemma spec_matching_Cons:
  "spec_matching start end (l # ls) = spec_matching start end [l] @ spec_matching start end ls"
  by (simp add: spec_matching_def spec_timed_lines_def List.map_filter_def)

lemma kept_lines_match:
  assumes "\<forall>l\<in>set ls. timestamped l" "start \<noteq> Some NaN" "end \<noteq> NaN"
  shows "spec_matching start end ls = map timed (filter (keeps start end) ls)"
  using assms(1)
proof (induction ls)
  case Nil
  show ?case by (simp add: spec_matching_def spec_timed_lines_def List.map_filter_def)
next
  case (Cons l ls)
  have tl: "timestamped l" and rest: "\<forall>l\<in>set ls. timestamped l" using Cons.prems by simp_all
  show ?case
    using keeps_iff_spec [OF tl assms(2,3)] Cons.IH [OF rest]
    by (simp add: spec_matching_Cons [of _ _ l ls])
qed

section \<open>Properties of the history query\<close>

lemmas eval_parse = parseFloat_def StrDecimalLiteral_def StrUnsignedDecimalLiteral_def
  ExponentPart_def pow10_def
  digits_value_def digit_val_def is_digit_def is_space_def starts_with_def Let_def

lemmas eval_history = history_def history_step_def init_state_def finalResult_def js_gt_def
  js_ge_def query_start_def query_end_def query_step_def log_path_def VAR_def
  normalizeFilenameComponent_def is_letter_def trim_def newline_def log_of_def

lemmas eval_spec = spec_output_def spec_assemble_def spec_matching_def spec_timed_lines_def
  spec_line_time_def spec_in_range_def List.map_filter_def timestamped_def

text \<open>
  For a query that is answered (status 200) over a log of which the loop keeps at least
  one line, the response is: the first kept line, then the lines chosen by
  \<open>time - lastIncludedTime >= step\<close> from \<open>-Infinity\<close> among the kept lines, except those
  equal to the first or the last kept line, then the last kept line when it differs from
  the first. When every line of the log is \<open>timestamped\<close>, the kept lines are the
  matching lines of the specification and the response is the output the specification
  describes.
\<close>

lemma history_output_of_kept_lines:
  assumes logfile: "fs (log_path (domain req)) = Some fileContent"
    and lines: "lines = split_on newline (trim fileContent)"
    and ok: "status_code (history fs now req) = 200"
    and some: "filter (keeps (query_start req) (query_end now req)) lines = m # ms"
    and out: "out = [m]
                @ filter (\<lambda>line. line \<noteq> m \<and> line \<noteq> last (m # ms))
                    (spec_downsample (query_step req) NInf (map timed (m # ms)))
                @ (if last (m # ms) \<noteq> m then [last (m # ms)] else [])"
  shows "history fs now req = \<lparr>status_code = 200, body = Text (join [newline] out)\<rparr>
         \<and> m \<in> set out \<and> last (m # ms) \<in> set out
         \<and> ((\<forall>line\<in>set lines. timestamped line) \<longrightarrow>
              spec_matching (query_start req) (query_end now req) lines = map timed (m # ms)
              \<and> spec_output (query_start req) (query_end now req) (query_step req) lines = out)"
proof -
  have s: "query_start req \<noteq> Some NaN" and e: "query_end now req \<noteq> NaN"
    using ok by (auto simp add: history_def Let_def isNaN_iff split: option.splits if_splits)
  have "last (map timed (m # ms)) = timed (last (m # ms))" by (rule last_map) simp
  then have la: "snd (last (timed m # map timed ms)) = last (m # ms)" by (simp add: timed_def)
  have asm: "spec_assemble (query_step req) (map timed (m # ms)) = out"
    using la by (simp add: spec_assemble_def out Let_def timed_def del: last.simps)
  have fr: "finalResult (history_loop (query_start req) (query_end now req) (query_step req)
              init_state lines) = out"
    using asm by (simp only: loop_output some)
  have resp: "history fs now req = \<lparr>status_code = 200, body = Text (join [newline] out)\<rparr>"
    using ok logfile fr
    by (simp add: history_def Let_def lines [symmetric] split: if_splits option.splits)
  have mem: "m \<in> set out" "last (m # ms) \<in> set out"
    by (simp_all add: out del: last.simps)
  have spec: "spec_matching (query_start req) (query_end now req) lines = map timed (m # ms)
              \<and> spec_output (query_start req) (query_end now req) (query_step req) lines = out"
    if "\<forall>line\<in>set lines. timestamped line"
    using kept_lines_match [OF that s e] asm by (simp add: spec_output_def some)
  show ?thesis using resp mem spec by blast
qed

text \<open>
  Claim C1. The output does not always contain the last matching line. The log below
  holds entries at the seconds 1, 2 and 3 and then a line that starts with a quoted ISO
  date, as \<^verbatim>\<open>src/server/index.ts\<close> writes its timestamps into the same file. For the
  query \<open>start=0\<close>, \<open>end=10\<close> with the default step the matching lines are the three
  entries, and the specified output is the first and the last of them, \<open>1000,a\<close> and
  \<open>3000,c\<close>. The handler returns \<open>1000,a\<close> and the quoted line: the time of that line
  is \<open>NaN\<close>, no range test skips it, and it replaces \<open>3000,c\<close> as the last matching
  line.
\<close>

theorem history_omits_last_matching_line:
  "spec_matching (Some (Fin 0)) (Fin 10)
     [''1000,a'', ''2000,b'', ''3000,c'', QuoteJSONString ''2024-01-01T00:00:00.000Z'' @ '',d'']
   = [(Fin 1, ''1000,a''), (Fin 2, ''2000,b''), (Fin 3, ''3000,c'')]
   \<and> spec_output (Some (Fin 0)) (Fin 10) (Fin 60)
       [''1000,a'', ''2000,b'', ''3000,c'', QuoteJSONString ''2024-01-01T00:00:00.000Z'' @ '',d'']
     = [''1000,a'', ''3000,c'']
   \<and> history
       [log_path ''a'' \<mapsto>
          log_of [''1000,a'', ''2000,b'', ''3000,c'',
                  QuoteJSONString ''2024-01-01T00:00:00.000Z'' @ '',d'']]
       50000
       \<lparr>domain = ''a'', startParam = Some ''0'', endParam = Some ''10'', stepParam = None\<rparr>
     = \<lparr>status_code = 200,
        body = Text (join [newline]
                 [''1000,a'', QuoteJSONString ''2024-01-01T00:00:00.000Z'' @ '',d''])\<rparr>"
  by (simp add: eval_history eval_parse eval_spec QuoteJSONString_def escape_char_def)

text \<open>
  Claim C5. A line with a comma whose leading timestamp does not parse has the time
  \<open>NaN\<close>. Both range tests of the loop compare with \<open>NaN\<close> and are false, so the line
  is not skipped: it is recorded as first or last matching line and returned. Here the
  third line starts with a quoted ISO date, as \<^verbatim>\<open>src/server/index.ts\<close> writes its
  timestamps into the same file; it is returned, and the last line in range,
  \<open>2000,b\<close>, is not.
\<close>

theorem history_returns_unparseable_line:
  "history
     [log_path ''a'' \<mapsto>
        log_of [''1000,a'', ''2000,b'', QuoteJSONString ''2024-01-01T00:00:00.000Z'' @ '',c'']]
     50000
     \<lparr>domain = ''a'', startParam = None, endParam = None, stepParam = None\<rparr>
   = \<lparr>status_code = 200,
      body = Text (join [newline]
               [''1000,a'', QuoteJSONString ''2024-01-01T00:00:00.000Z'' @ '',c''])\<rparr>
   \<and> parseFloat (QuoteJSONString ''2024-01-01T00:00:00.000Z'') = NaN"
  by (simp add: eval_history eval_parse QuoteJSONString_def escape_char_def)







section \<open>Decimal digits, JSON text and log lines\<close>


























subsection \<open>The text of a number reads back as the number\<close>


















section \<open>A telemetry post followed by a history query\<close>

lemma JSON_stringify_Object_shape:
  "JSON_stringify (Object kvs) \<noteq> [] \<and> last (JSON_stringify (Object kvs)) = CHR ''}''"
  by simp




lemma post_unit_accepted:
  assumes ct: "content_type req = Some ct" "str_includes ct ''application/octet-stream''"
    and buf: "req_body req = Buffer buf" "12 \<le> length buf"
  shows "post_unit ts name req st =
     (let d = (if name = [] then ''default'' else name);
          t = float32_value (le_uint32 (take 4 buf));
          h = float32_value (le_uint32 (take 4 (drop 4 buf)));
          r = float32_value (le_uint32 (take 4 (drop 8 buf)));
          p = nullish (get (domains st) d) (Number NaN);
          power = populationToFanPower (ToNumber p)
      in (\<lparr>status_code = 200, body = Octets (writeFloatLE power)\<rparr>,
          st\<lparr>status := (status st)(d \<mapsto>
               \<lparr>population = p, fan_power = Some power, temperature = Some t,
                humidity = Some h, fan_rpm = Some r\<rparr>),
             files := append_file (log_path d) (telemetry_line ts t h r p @ [newline]) (files st)\<rparr>))"
  using assms by (simp add: post_unit_def readFloatLE_def Let_def)

lemma post_unit_rejected:
  assumes "\<not> (str_includes (case content_type req of None \<Rightarrow> [] | Some h \<Rightarrow> h) ''application/octet-stream''
            \<and> isBuffer (req_body req) \<and> 12 \<le> length (buffer_bytes (req_body req)))"
  shows "post_unit ts name req st = (\<lparr>status_code = 400, body = Text ''Bad Request''\<rparr>, st)"
  using assms by (auto simp add: post_unit_def Let_def)

lemmas eval_float = writeFloatLE_def float32_bits_def float32_magnitude_def halvings.simps
  doublings.simps round_half_even_def readFloatLE_def float32_value_def le_uint32_def


lemmas eval_post = post_unit_def initial_server_def append_file_def get_def
  populationToFanPower_def Math_max_def Math_min_def









text \<open>
  Claim C9, as the code has it. A telemetry post is rejected with status 400, the state
  unchanged, unless the content type contains \<open>application/octet-stream\<close> and the body
  is a \<open>Buffer\<close> of at least 12 bytes. An accepted post reads three little-endian
  32-bit floats at the offsets 0, 4 and 8 as temperature, humidity and fan speed,
  ignores any further bytes, and answers 200 with the four bytes of the actuation value
  as a little-endian 32-bit float.
\<close>

theorem post_unit_accepts_iff:
  assumes "contentType = (case content_type req of None \<Rightarrow> [] | Some h \<Rightarrow> h)"
    and "buf = buffer_bytes (req_body req)"
    and "d = (if name = [] then ''default'' else name)"
    and "p = nullish (get (domains st) d) (Number NaN)"
    and "pw = populationToFanPower (ToNumber p)"
  shows "(if str_includes contentType ''application/octet-stream'' \<and> isBuffer (req_body req)
             \<and> 12 \<le> length buf
          then fst (post_unit ts name req st)
                 = \<lparr>status_code = 200, body = Octets (writeFloatLE pw)\<rparr>
               \<and> length (writeFloatLE pw) = 4
               \<and> status (snd (post_unit ts name req st)) d =
                   Some \<lparr>population = p, fan_power = Some pw,
                         temperature = readFloatLE buf 0, humidity = readFloatLE buf 4,
                         fan_rpm = readFloatLE buf 8\<rparr>
               \<and> readFloatLE buf 0 = Some (float32_value (le_uint32 (take 4 buf)))
               \<and> readFloatLE buf 4 = Some (float32_value (le_uint32 (take 4 (drop 4 buf))))
               \<and> readFloatLE buf 8 = Some (float32_value (le_uint32 (take 4 (drop 8 buf))))
          else post_unit ts name req st = (\<lparr>status_code = 400, body = Text ''Bad Request''\<rparr>, st))"
proof (cases "str_includes contentType ''application/octet-stream'' \<and> isBuffer (req_body req)
             \<and> 12 \<le> length buf")
  case True
  then obtain b where b: "req_body req = Buffer b" by (cases "req_body req") auto
  then have bb: "b = buf" using assms(2) by simp
  obtain h where h: "content_type req = Some h"
    using True assms(1) by (cases "content_type req") auto
  have inc: "str_includes h ''application/octet-stream''" using True assms(1) h by simp
  have len: "12 \<le> length b" using True bb by simp
  show ?thesis
    using True assms(3-5) bb
    by (simp add: post_unit_accepted [OF h inc b len] Let_def readFloatLE_def writeFloatLE_def)
next
  case False
  then show ?thesis
    using assms(1,2) post_unit_rejected [of req ts name st] by simp
qed

theorem post_unit_accepts_iff_witness:
  "post_unit 1000 ''a''
     \<lparr>content_type = Some ''application/octet-stream'', is_json = False,
      req_body = Buffer [0, 0, 0xAC, 0x41, 0, 0, 0x20, 0x42, 0, 0, 0x96, 0x44]\<rparr>
     ((initial_server Map.empty)\<lparr>domains := Object [(''a'', Number (Fin 1))]\<rparr>)
   = (\<lparr>status_code = 200, body = Octets [0, 0, 0, 0x3F]\<rparr>,
      snd (post_unit 1000 ''a''
        \<lparr>content_type = Some ''application/octet-stream'', is_json = False,
         req_body = Buffer [0, 0, 0xAC, 0x41, 0, 0, 0x20, 0x42, 0, 0, 0x96, 0x44]\<rparr>
        ((initial_server Map.empty)\<lparr>domains := Object [(''a'', Number (Fin 1))]\<rparr>)))
   \<and> status (snd (post_unit 1000 ''a''
        \<lparr>content_type = Some ''application/octet-stream'', is_json = False,
         req_body = Buffer [0, 0, 0xAC, 0x41, 0, 0, 0x20, 0x42, 0, 0, 0x96, 0x44]\<rparr>
        ((initial_server Map.empty)\<lparr>domains := Object [(''a'', Number (Fin 1))]\<rparr>))) ''a''
     = Some \<lparr>population = Number (Fin 1), fan_power = Some (Fin (1 / 2)),
             temperature = Some (Fin (43 / 2)), humidity = Some (Fin 40),
             fan_rpm = Some (Fin 1200)\<rparr>
   \<and> post_unit 1000 ''a''
       \<lparr>content_type = Some ''application/octet-stream'', is_json = False,
        req_body = Buffer [0, 0, 0xAC, 0x41, 0, 0, 0x20, 0x42, 0, 0, 0x96]\<rparr>
       (initial_server Map.empty)
     = (\<lparr>status_code = 400, body = Text ''Bad Request''\<rparr>, initial_server Map.empty)
   \<and> post_unit 1000 ''a''
       \<lparr>content_type = Some ''application/json'', is_json = True,
        req_body = Parsed (Object [])\<rparr>
       (initial_server Map.empty)
     = (\<lparr>status_code = 400, body = Text ''Bad Request''\<rparr>, initial_server Map.empty)"
  using post_unit_accepts_iff [OF refl refl refl refl refl, of
      "\<lparr>content_type = Some ''application/octet-stream'', is_json = False,
        req_body = Buffer [0, 0, 0xAC, 0x41, 0, 0, 0x20, 0x42, 0, 0, 0x96, 0x44]\<rparr>"
      1000 "''a''" "(initial_server Map.empty)\<lparr>domains := Object [(''a'', Number (Fin 1))]\<rparr>"]
    post_unit_accepts_iff [OF refl refl refl refl refl, of
      "\<lparr>content_type = Some ''application/octet-stream'', is_json = False,
        req_body = Buffer [0, 0, 0xAC, 0x41, 0, 0, 0x20, 0x42, 0, 0, 0x96]\<rparr>"
      1000 "''a''" "initial_server Map.empty"]
    post_unit_accepts_iff [OF refl refl refl refl refl, of
      "\<lparr>content_type = Some ''application/json'', is_json = True,
        req_body = Parsed (Object [])\<rparr>"
      1000 "''a''" "initial_server Map.empty"]
  by (simp add: starts_with_def eval_float get_def initial_server_def populationToFanPower_def
      Math_max_def Math_min_def prod_eq_iff)

text \<open>
  Claim C9, as stated, fails for a payload longer than 12 bytes: 13 bytes are not the
  fixed size, and the post is accepted.
\<close>

theorem post_unit_accepts_longer_payload:
  "fst (post_unit 1000 ''a''
     \<lparr>content_type = Some ''application/octet-stream'', is_json = False,
      req_body = Buffer [0, 0, 0xAC, 0x41, 0, 0, 0x20, 0x42, 0, 0, 0x96, 0x44, 7]\<rparr>
     (initial_server Map.empty))
   = \<lparr>status_code = 200, body = Octets [0, 0, 0xC0, 0x7F]\<rparr>
   \<and> length [0, 0, 0xAC, 0x41, 0, 0, 0x20, 0x42, 0, 0, 0x96, 0x44, 7 :: byte] = 13"
  by (simp add: eval_post eval_float starts_with_def Let_def)

section \<open>Properties of the detections handlers\<close>

lemma index_entry_eq:
  "index_entry (m, console) e =
     ((case valid_count (snd e) of None \<Rightarrow> m | Some c \<Rightarrow> m(fst e \<mapsto> c)), console @ [report e])"
proof (cases e)
  case (Pair name v)
  then show ?thesis
    by (cases v) (simp_all add: valid_count_def report_def)
qed

lemma foldl_index_entry_console:
  "snd (foldl index_entry (m, console) es) = console @ map report es"
proof (induction es arbitrary: m console)
  case Nil
  show ?case by simp
next
  case (Cons e es)
  show ?case by (simp add: index_entry_eq Cons.IH)
qed

lemma foldl_index_entry_invalid:
  assumes "\<forall>e\<in>set es. fst e = name \<longrightarrow> valid_count (snd e) = None"
  shows "fst (foldl index_entry (m, console) es) name = m name"
  using assms
proof (induction es arbitrary: m console)
  case Nil
  show ?case by simp
next
  case (Cons e es)
  have rest: "\<forall>e\<in>set es. fst e = name \<longrightarrow> valid_count (snd e) = None"
    using Cons.prems by simp
  show ?case
    using Cons.prems by (auto simp add: index_entry_eq Cons.IH [OF rest] split: option.splits)
qed

lemma foldl_index_entry_valid:
  assumes "distinct (map fst es)" "(name, v) \<in> set es" "valid_count v = Some c"
  shows "fst (foldl index_entry (m, console) es) name = Some c"
  using assms
proof (induction es arbitrary: m console)
  case Nil
  then show ?case by simp
next
  case (Cons e es)
  show ?case
  proof (cases "e = (name, v)")
    case True
    have "name \<notin> fst ` set es" using Cons.prems(1) True by simp
    then have "\<forall>e\<in>set es. fst e = name \<longrightarrow> valid_count (snd e) = None" by force
    then show ?thesis
      using True Cons.prems(3) by (simp add: index_entry_eq foldl_index_entry_invalid)
  next
    case False
    then have "(name, v) \<in> set es" using Cons.prems(2) by simp
    then show ?thesis
      using Cons.prems(1,3) by (simp add: index_entry_eq Cons.IH)
  qed
qed

lemma resetDetectionsTimeout_keeps:
  "domains (resetDetectionsTimeout T now st) = domains st"
  "status (resetDetectionsTimeout T now st) = status st"
  "files (resetDetectionsTimeout T now st) = files st"
  by (simp_all add: resetDetectionsTimeout_def setTimeout_def clearTimeout_def Let_def
      split: option.splits)

text \<open>
  Claim C4, as the code has it. Both handlers answer 400 and leave the state as it is
  when the request is not JSON or its body is not an object. For an object, the handler
  of \<^verbatim>\<open>src/server/index.ts\<close> answers 200, reports every entry, never stores a count
  that is negative or not a number, and stores every valid count (the keys of a parsed
  object are distinct); the handler of the server with status and history answers 200
  and makes the body, as it is, the new \<open>domains\<close>: it checks no entry.
\<close>

theorem detections_validation:
  "(\<not> accepts_detections req \<longrightarrow>
      status_code (fst (index_post_detections req m)) = 400
      \<and> fst (snd (index_post_detections req m)) = m
      \<and> status_code (fst (post_detections detectionsTimeout now req st)) = 400
      \<and> snd (post_detections detectionsTimeout now req st) = st)
   \<and> (accepts_detections req \<and> body_value (req_body req) = Some detections \<longrightarrow>
      fst (index_post_detections req m) = \<lparr>status_code = 200, body = Empty\<rparr>
      \<and> snd (snd (index_post_detections req m)) = map report (entries detections)
      \<and> ((\<forall>e\<in>set (entries detections). fst e = name \<longrightarrow> valid_count (snd e) = None)
           \<longrightarrow> fst (snd (index_post_detections req m)) name = m name)
      \<and> (distinct (keys detections) \<and> (name, v) \<in> set (entries detections)
           \<and> valid_count v = Some c
           \<longrightarrow> fst (snd (index_post_detections req m)) name = Some c)
      \<and> fst (post_detections detectionsTimeout now req st) = \<lparr>status_code = 200, body = Empty\<rparr>
      \<and> domains (snd (post_detections detectionsTimeout now req st)) = detections)"
proof -
  have rej: "status_code (fst (index_post_detections req m)) = 400
      \<and> fst (snd (index_post_detections req m)) = m
      \<and> status_code (fst (post_detections detectionsTimeout now req st)) = 400
      \<and> snd (post_detections detectionsTimeout now req st) = st"
    if "\<not> accepts_detections req"
    using that
    by (auto simp add: accepts_detections_def index_post_detections_def post_detections_def
        split: option.splits)
  have acc: "fst (index_post_detections req m) = \<lparr>status_code = 200, body = Empty\<rparr>
      \<and> snd (snd (index_post_detections req m)) = map report (entries detections)
      \<and> ((\<forall>e\<in>set (entries detections). fst e = name \<longrightarrow> valid_count (snd e) = None)
           \<longrightarrow> fst (snd (index_post_detections req m)) name = m name)
      \<and> (distinct (keys detections) \<and> (name, v) \<in> set (entries detections)
           \<and> valid_count v = Some c
           \<longrightarrow> fst (snd (index_post_detections req m)) name = Some c)
      \<and> fst (post_detections detectionsTimeout now req st) = \<lparr>status_code = 200, body = Empty\<rparr>
      \<and> domains (snd (post_detections detectionsTimeout now req st)) = detections"
    if a: "accepts_detections req" and b: "body_value (req_body req) = Some detections"
  proof -
    have ok: "is_json req" "typeof_object detections" "detections \<noteq> Null"
      using a b by (simp_all add: accepts_detections_def)
    have ix: "index_post_detections req m =
        (\<lparr>status_code = 200, body = Empty\<rparr>, foldl index_entry (m, []) (entries detections))"
      using ok b by (simp add: index_post_detections_def)
    have pd: "post_detections detectionsTimeout now req st =
        (\<lparr>status_code = 200, body = Empty\<rparr>,
         resetDetectionsTimeout detectionsTimeout now
           (st\<lparr>domains := detections,
               status := (\<lambda>domain. if domain \<in> set (keys detections) then status st domain else None)\<rparr>))"
      using ok b by (simp add: post_detections_def Let_def)
    show ?thesis
      using foldl_index_entry_console [of m "[]" "entries detections"]
        foldl_index_entry_invalid [of "entries detections" name m "[]"]
        foldl_index_entry_valid [of "entries detections" name v c m "[]"]
      by (simp add: ix pd resetDetectionsTimeout_keeps keys_def)
  qed
  show ?thesis using rej acc by blast
qed


theorem detections_validation_witness:
  "fst (snd (index_post_detections
      \<lparr>content_type = Some ''application/json'', is_json = True,
       req_body = Parsed (Object [(''a'', Number (Fin (- 1))), (''b'', String ''x''),
                                  (''c'', Number (Fin 2))])\<rparr> Map.empty)) ''a'' = None
   \<and> fst (snd (index_post_detections
      \<lparr>content_type = Some ''application/json'', is_json = True,
       req_body = Parsed (Object [(''a'', Number (Fin (- 1))), (''b'', String ''x''),
                                  (''c'', Number (Fin 2))])\<rparr> Map.empty)) ''c'' = Some (Fin 2)
   \<and> snd (snd (index_post_detections
      \<lparr>content_type = Some ''application/json'', is_json = True,
       req_body = Parsed (Object [(''a'', Number (Fin (- 1))), (''b'', String ''x''),
                                  (''c'', Number (Fin 2))])\<rparr> Map.empty))
     = [Invalid ''a'' (Number (Fin (- 1))), Invalid ''b'' (String ''x''), Updated ''c'' (Fin 2)]
   \<and> post_detections 10000 0
       \<lparr>content_type = Some ''application/json'', is_json = True,
        req_body = Parsed (String ''x'')\<rparr> (initial_server Map.empty)
     = (\<lparr>status_code = 400, body = Text ''Bad Request: body must be a JSON object.''\<rparr>,
        initial_server Map.empty)"
proof -
  let ?body = "Object [(''a'', Number (Fin (- 1))), (''b'', String ''x''), (''c'', Number (Fin 2))]"
  let ?req = "\<lparr>content_type = Some ''application/json'', is_json = True, req_body = Parsed ?body\<rparr>"
  let ?bad = "\<lparr>content_type = Some ''application/json'', is_json = True,
               req_body = Parsed (String ''x'')\<rparr>"
  have a: "accepts_detections ?req \<and> body_value (req_body ?req) = Some ?body"
    by (simp add: accepts_detections_def)
  have b: "\<not> accepts_detections ?bad" by (simp add: accepts_detections_def)
  have v: "valid_count (Number (Fin (- 1))) = None" "valid_count (String ''x'') = None"
    "valid_count (Number (Fin 2)) = Some (Fin 2)"
    by (simp_all add: valid_count_def js_ge_def)
  have 1: "fst (snd (index_post_detections ?req Map.empty)) ''a'' = None"
    using detections_validation [of ?req Map.empty 10000 0 "initial_server Map.empty" ?body "''a''"] a v
    by simp
  have 2: "fst (snd (index_post_detections ?req Map.empty)) ''c'' = Some (Fin 2)
           \<and> snd (snd (index_post_detections ?req Map.empty)) = map report (entries ?body)"
    using detections_validation [of ?req Map.empty 10000 0 "initial_server Map.empty" ?body "''c''"
        "Number (Fin 2)" "Fin 2"] a v
    by (simp add: keys_def)
  have 3: "snd (post_detections 10000 0 ?bad (initial_server Map.empty)) = initial_server Map.empty"
    using detections_validation [of ?bad Map.empty 10000 0 "initial_server Map.empty"] b by simp
  have 4: "fst (post_detections 10000 0 ?bad (initial_server Map.empty))
           = \<lparr>status_code = 400, body = Text ''Bad Request: body must be a JSON object.''\<rparr>"
    by (simp add: post_detections_def)
  show ?thesis
    using 1 2 3 4 v by (simp add: report_def prod_eq_iff)
qed

text \<open>
  Claim C4, as stated, fails for the server with status and history: the negative count
  of \<open>a\<close> and the string count of \<open>b\<close> are stored in \<open>domains\<close>.
\<close>

theorem post_detections_stores_invalid_counts:
  "domains (snd (post_detections 10000 0
      \<lparr>content_type = Some ''application/json'', is_json = True,
       req_body = Parsed (Object [(''a'', Number (Fin (- 1))), (''b'', String ''x''),
                                  (''c'', Number (Fin 2))])\<rparr> (initial_server Map.empty)))
     = Object [(''a'', Number (Fin (- 1))), (''b'', String ''x''), (''c'', Number (Fin 2))]
   \<and> get (Object [(''a'', Number (Fin (- 1))), (''b'', String ''x''), (''c'', Number (Fin 2))]) ''a''
     = Some (Number (Fin (- 1)))
   \<and> get (Object [(''a'', Number (Fin (- 1))), (''b'', String ''x''), (''c'', Number (Fin 2))]) ''b''
     = Some (String ''x'')
   \<and> valid_count (Number (Fin (- 1))) = None \<and> valid_count (String ''x'') = None"
  by (simp add: post_detections_def resetDetectionsTimeout_keeps get_def valid_count_def js_ge_def
      Let_def)

section \<open>The inactivity timeout\<close>

lemma single_timer_initial: "single_timer (initial_server fs)"
  by (simp add: single_timer_def initial_server_def)

lemma single_timer_cases:
  "single_timer st \<longleftrightarrow>
     (timers st = [] \<and> detectionsTimeoutHandle st = None) \<or> (\<exists>due. pending due st)"
  by (cases "detectionsTimeoutHandle st"; cases "timers st")
     (auto simp add: single_timer_def pending_def)

lemma run_timers_none: "timers st = [] \<Longrightarrow> run_timers now st = st"
  by (simp add: run_timers_def)

lemma run_timers_early: "pending due st \<Longrightarrow> now < due \<Longrightarrow> run_timers now st = st"
  by (auto simp add: run_timers_def pending_def)

lemma run_timers_due:
  "pending due st \<Longrightarrow> due \<le> now \<Longrightarrow>
   run_timers now st =
     st\<lparr>domains := Object [], status := Map.empty, detectionsTimeoutHandle := None, timers := []\<rparr>"
  by (auto simp add: run_timers_def pending_def timeout_callback_def)

lemma single_timer_run_timers: "single_timer st \<Longrightarrow> single_timer (run_timers now st)"
  unfolding single_timer_cases
proof (elim disjE exE conjE)
  assume "timers st = []" "detectionsTimeoutHandle st = None"
  then show "(timers (run_timers now st) = [] \<and> detectionsTimeoutHandle (run_timers now st) = None)
             \<or> (\<exists>due. pending due (run_timers now st))"
    by (simp add: run_timers_none)
next
  fix due assume p: "pending due st"
  show "(timers (run_timers now st) = [] \<and> detectionsTimeoutHandle (run_timers now st) = None)
             \<or> (\<exists>due. pending due (run_timers now st))"
  proof (cases "due \<le> now")
    case True
    then show ?thesis by (simp add: run_timers_due [OF p])
  next
    case False
    then show ?thesis using p by (auto simp add: run_timers_early [OF p])
  qed
qed

lemma reset_pending:
  "single_timer st \<Longrightarrow> pending (now + T) (resetDetectionsTimeout T now st)"
  by (cases "detectionsTimeoutHandle st"; cases "timers st")
     (auto simp add: single_timer_def pending_def resetDetectionsTimeout_def setTimeout_def
        clearTimeout_def Let_def)

lemma post_detections_timer:
  assumes "single_timer st"
  shows "if accepts_detections req
         then pending (now + T) (snd (post_detections T now req st))
         else snd (post_detections T now req st) = st"
proof (cases "accepts_detections req")
  case True
  then obtain v where v: "body_value (req_body req) = Some v" "is_json req" "typeof_object v" "v \<noteq> Null"
    by (auto simp add: accepts_detections_def split: option.splits)
  have s: "single_timer (st\<lparr>domains := v,
      status := (\<lambda>domain. if domain \<in> set (keys v) then status st domain else None)\<rparr>)"
    using assms by (simp add: single_timer_def)
  show ?thesis
    using True v reset_pending [OF s] by (simp add: post_detections_def Let_def)
next
  case False
  then show ?thesis
    by (auto simp add: accepts_detections_def post_detections_def split: option.splits)
qed

lemma post_unit_timers:
  "timers (snd (post_unit ts name req st)) = timers st"
  "detectionsTimeoutHandle (snd (post_unit ts name req st)) = detectionsTimeoutHandle st"
  "domains (snd (post_unit ts name req st)) = domains st"
  by (simp_all add: post_unit_def Let_def split: option.splits)

lemma handle_single_timer:
  assumes "single_timer st"
  shows "single_timer (snd (handle T now ev st))"
proof -
  note s = single_timer_run_timers [OF assms, of now]
  show ?thesis
  proof (cases ev)
    case (PostDetections req)
    show ?thesis
      using post_detections_timer [OF s, where req = req and T = T and now = now] s
      by (auto simp add: handle_def Let_def PostDetections single_timer_cases split: if_splits)
  next
    case (PostUnit name req)
    show ?thesis using s by (simp add: handle_def Let_def PostUnit single_timer_def post_unit_timers)
  next
    case GetStatus
    show ?thesis using s by (simp add: handle_def Let_def GetStatus)
  next
    case (GetHistory req)
    show ?thesis using s by (simp add: handle_def Let_def GetHistory)
  qed
qed

lemma run_single_timer: "single_timer st \<Longrightarrow> single_timer (run T evs st)"
  by (induction evs arbitrary: st) (auto simp add: handle_single_timer)

lemma handle_quiet:
  assumes "pending due st \<or> cleared st" "\<not> is_detections ev"
  shows "(pending due (snd (handle T now ev st)) \<or> cleared (snd (handle T now ev st)))
         \<and> (pending due st \<and> now < due \<longrightarrow> pending due (snd (handle T now ev st)))"
proof -
  have r: "(pending due (run_timers now st) \<or> cleared (run_timers now st))
           \<and> (pending due st \<and> now < due \<longrightarrow> pending due (run_timers now st))"
    using assms(1)
  proof
    assume p: "pending due st"
    show ?thesis
    proof (cases "due \<le> now")
      case True
      then show ?thesis by (simp add: run_timers_due [OF p] cleared_def)
    next
      case False
      then show ?thesis using p by (simp add: run_timers_early [OF p])
    qed
  next
    assume c: "cleared st"
    then have "run_timers now st = st" by (simp add: cleared_def run_timers_none)
    moreover have "\<not> pending due st" using c by (simp add: cleared_def pending_def)
    ultimately show ?thesis using c by simp
  qed
  show ?thesis
  proof (cases ev)
    case (PostDetections req)
    then show ?thesis using assms(2) by simp
  next
    case (PostUnit name req)
    show ?thesis
      using r by (simp add: handle_def Let_def PostUnit pending_def cleared_def post_unit_timers)
  next
    case GetStatus
    show ?thesis using r by (simp add: handle_def Let_def GetStatus)
  next
    case (GetHistory req)
    show ?thesis using r by (simp add: handle_def Let_def GetHistory)
  qed
qed

lemma run_quiet:
  assumes "pending due st \<or> cleared st" "\<forall>e\<in>set evs. \<not> is_detections (snd e)"
  shows "pending due (run T evs st) \<or> cleared (run T evs st)"
  using assms
proof (induction evs arbitrary: st)
  case Nil
  then show ?case by simp
next
  case (Cons e evs)
  obtain now ev where e: "e = (now, ev)" by (cases e)
  have q: "\<not> is_detections ev" using Cons.prems(2) e by simp
  have rest: "\<forall>e\<in>set evs. \<not> is_detections (snd e)" using Cons.prems(2) by simp
  show ?case
    using Cons.IH [OF _ rest] handle_quiet [OF Cons.prems(1) q, of T now] by (simp add: e)
qed

lemma run_quiet_early:
  assumes "pending due st" "\<forall>e\<in>set evs. \<not> is_detections (snd e) \<and> fst e < due"
  shows "pending due (run T evs st)"
  using assms
proof (induction evs arbitrary: st)
  case Nil
  then show ?case by simp
next
  case (Cons e evs)
  obtain now ev where e: "e = (now, ev)" by (cases e)
  have q: "\<not> is_detections ev" "now < due" using Cons.prems(2) e by simp_all
  have rest: "\<forall>e\<in>set evs. \<not> is_detections (snd e) \<and> fst e < due" using Cons.prems(2) by simp
  have "pending due (snd (handle T now ev st))"
    using handle_quiet [OF _ q(1), of due st T now] Cons.prems(1) q(2) by simp
  then show ?case using Cons.IH [OF _ rest] by (simp add: e)
qed

lemma get_status_cleared: "domains st = Object [] \<Longrightarrow> get_status st = \<lparr>status_code = 200, body = Json (Object [])\<rparr>"
  by (simp add: get_status_def statusRecord_def keys_def)

text \<open>
  Claim C8. In every reachable state at most one timeout is pending, the one named by
  \<open>detectionsTimeoutHandle\<close>. An accepted detections post at the time \<open>t\<close> leaves
  exactly one pending timeout, due at \<open>t + T\<close>: an earlier one is cancelled and does
  not fire. When no further detections post arrives, the event loop at any time from
  \<open>t + T\<close> on has fired the timeout: \<open>domains\<close> is empty and \<open>GET /status\<close> answers
  the empty object, and when nothing at all was posted after the expiry the map
  \<open>status\<close> is empty too.
\<close>

theorem inactivity_clears_state:
  assumes "st = run T evs0 (initial_server fs)"
    and "accepts_detections req"
    and "st1 = snd (handle T t (PostDetections req) st)"
    and "\<forall>e\<in>set evs. \<not> is_detections (snd e)"
    and "st2 = run T evs st1"
    and "t + T \<le> t_end"
  shows "(\<exists>h. timers st1 = [(h, t + T)] \<and> detectionsTimeoutHandle st1 = Some h)
         \<and> single_timer st \<and> single_timer st1 \<and> single_timer st2
         \<and> timers (run_timers t_end st2) = []
         \<and> domains (run_timers t_end st2) = Object []
         \<and> fst (handle T t_end GetStatus st2) = \<lparr>status_code = 200, body = Json (Object [])\<rparr>
         \<and> ((\<forall>e\<in>set evs. fst e < t + T) \<longrightarrow> status (run_timers t_end st2) = Map.empty)"
proof -
  have s0: "single_timer st" using assms(1) by (simp add: run_single_timer single_timer_initial)
  have s0': "single_timer (run_timers t st)" by (rule single_timer_run_timers [OF s0])
  have p1: "pending (t + T) st1"
    using post_detections_timer [OF s0', where req = req and T = T and now = t] assms(2,3)
    by (simp add: handle_def Let_def add.commute)
  have s1: "single_timer st1" using assms(3) by (simp add: handle_single_timer [OF s0])
  have s2: "single_timer st2" using assms(5) by (simp add: run_single_timer [OF s1])
  have pc: "pending (t + T) st2 \<or> cleared st2"
    using run_quiet [OF _ assms(4), of "t + T" st1 T] p1 assms(5) by simp
  have fin: "cleared (run_timers t_end st2)"
    using pc
  proof
    assume p: "pending (t + T) st2"
    show ?thesis by (simp add: run_timers_due [OF p assms(6)] cleared_def)
  next
    assume c: "cleared st2"
    then show ?thesis by (simp add: cleared_def run_timers_none)
  qed
  have early: "status (run_timers t_end st2) = Map.empty" if "\<forall>e\<in>set evs. fst e < t + T"
  proof -
    have "pending (t + T) st2"
      using run_quiet_early [OF p1, of evs T] assms(4,5) that by simp
    then show ?thesis by (simp add: run_timers_due [OF _ assms(6)])
  qed
  show ?thesis
    using p1 s0 s1 s2 fin early
    by (simp add: pending_def cleared_def handle_def Let_def get_status_cleared)
qed


theorem inactivity_clears_state_witness:
  "fst (handle 10000 10500 GetStatus
     (run 10000
        [(600, PostUnit ''a''
            \<lparr>content_type = Some ''application/octet-stream'', is_json = False,
             req_body = Buffer [0, 0, 0xAC, 0x41, 0, 0, 0x20, 0x42, 0, 0, 0x96, 0x44]\<rparr>)]
        (snd (handle 10000 500
            (PostDetections
               \<lparr>content_type = Some ''application/json'', is_json = True,
                req_body = Parsed (Object [(''a'', Number (Fin 1))])\<rparr>)
            (run 10000 [] (initial_server Map.empty))))))
   = \<lparr>status_code = 200, body = Json (Object [])\<rparr>
   \<and> status (run_timers 10500
     (run 10000
        [(600, PostUnit ''a''
            \<lparr>content_type = Some ''application/octet-stream'', is_json = False,
             req_body = Buffer [0, 0, 0xAC, 0x41, 0, 0, 0x20, 0x42, 0, 0, 0x96, 0x44]\<rparr>)]
        (snd (handle 10000 500
            (PostDetections
               \<lparr>content_type = Some ''application/json'', is_json = True,
                req_body = Parsed (Object [(''a'', Number (Fin 1))])\<rparr>)
            (run 10000 [] (initial_server Map.empty))))))
   = Map.empty
   \<and> fst (handle 10000 700 GetStatus
     (run 10000
        [(600, PostUnit ''a''
            \<lparr>content_type = Some ''application/octet-stream'', is_json = False,
             req_body = Buffer [0, 0, 0xAC, 0x41, 0, 0, 0x20, 0x42, 0, 0, 0x96, 0x44]\<rparr>)]
        (snd (handle 10000 500
            (PostDetections
               \<lparr>content_type = Some ''application/json'', is_json = True,
                req_body = Parsed (Object [(''a'', Number (Fin 1))])\<rparr>)
            (run 10000 [] (initial_server Map.empty))))))
   = \<lparr>status_code = 200,
      body = Json (Object [(''a'', Object [(''population'', Number (Fin 1)),
          (''fan_power'', Number (Fin (1 / 2))), (''temperature'', Number (Fin (43 / 2))),
          (''humidity'', Number (Fin 40)), (''fan_rpm'', Number (Fin 1200))])])\<rparr>"
proof -
  let ?det = "\<lparr>content_type = Some ''application/json'', is_json = True,
                req_body = Parsed (Object [(''a'', Number (Fin 1))])\<rparr>"
  let ?evs = "[(600 :: nat, PostUnit ''a''
            \<lparr>content_type = Some ''application/octet-stream'', is_json = False,
             req_body = Buffer [0, 0, 0xAC, 0x41, 0, 0, 0x20, 0x42, 0, 0, 0x96, 0x44]\<rparr>)]"
  have acc: "accepts_detections ?det" by (simp add: accepts_detections_def)
  have quiet: "\<forall>e\<in>set ?evs. \<not> is_detections (snd e)" by simp
  have late: "(500 :: nat) + 10000 \<le> 10500" by simp
  have early: "\<forall>e\<in>set ?evs. fst e < (500 :: nat) + 10000" by simp
  have before: "fst (handle 10000 700 GetStatus
     (run 10000 ?evs (snd (handle 10000 500 (PostDetections ?det)
        (run 10000 [] (initial_server Map.empty))))))
   = \<lparr>status_code = 200,
      body = Json (Object [(''a'', Object [(''population'', Number (Fin 1)),
          (''fan_power'', Number (Fin (1 / 2))), (''temperature'', Number (Fin (43 / 2))),
          (''humidity'', Number (Fin 40)), (''fan_rpm'', Number (Fin 1200))])])\<rparr>"
    by (simp add: handle_def run_timers_def post_detections_def resetDetectionsTimeout_def
        setTimeout_def clearTimeout_def keys_def eval_post eval_float starts_with_def
        get_status_def statusRecord_def Status_value_def optional_def Let_def)
  show ?thesis
    using inactivity_clears_state [OF refl acc refl quiet refl late, of "[]" Map.empty] early
      before
    by blast
qed

end
